theory Spec2Isabelle
  imports Main "HOL-Library.Sublist"
begin

section \<open>Python string operations used by the agent's streaming endpoint\<close>

text \<open>
  Strings are \<open>char list\<close>s holding the UTF-8 bytes of the Python \<open>str\<close>. Every
  separator, prefix and keyword the endpoint searches for is ASCII, and a match of an ASCII
  pattern in well-formed UTF-8 starts and ends at code point boundaries, so the byte-level
  tests below agree with Python's code-point-level ones.
\<close>

definition lower_char :: "char \<Rightarrow> char" where
  "lower_char c =
     (case map_of (zip ''ABCDEFGHIJKLMNOPQRSTUVWXYZ'' ''abcdefghijklmnopqrstuvwxyz'') c of
        Some d \<Rightarrow> d
      | None \<Rightarrow> c)"

text \<open>\<open>str.lower()\<close> on the ASCII letters, the only ones the keyword tests can observe.\<close>

definition lower :: "string \<Rightarrow> string" where
  "lower s = map lower_char s"

text \<open>\<open>sub in s\<close>: \<open>sub\<close> occurs in \<open>s\<close> as a contiguous substring.\<close>

fun contains :: "string \<Rightarrow> string \<Rightarrow> bool" where
  "contains sub [] = (sub = [])"
| "contains sub (c # cs) = (prefix sub (c # cs) \<or> contains sub cs)"

text \<open>
  \<open>s.split(sep)\<close> for a non-empty separator: the pieces between the non-overlapping
  occurrences of \<open>sep\<close>, scanning from the left. \<open>acc\<close> holds the current piece reversed.
\<close>

function split_from :: "string \<Rightarrow> string \<Rightarrow> string \<Rightarrow> string list" where
  "split_from sep acc [] = [rev acc]"
| "split_from sep acc (c # cs) =
     (if sep \<noteq> [] \<and> prefix sep (c # cs)
      then rev acc # split_from sep [] (drop (length sep) (c # cs))
      else split_from sep (c # acc) cs)"
  by pat_completeness auto
termination
  by (relation "measure (\<lambda>(sep, acc, s). length s)") auto

definition split :: "string \<Rightarrow> string \<Rightarrow> string list" where
  "split sep s = split_from sep [] s"

text \<open>\<open>s.split(sep, 1)\<close>: at most one split, at the first occurrence of \<open>sep\<close>.\<close>

fun split_once_from :: "string \<Rightarrow> string \<Rightarrow> string \<Rightarrow> string list" where
  "split_once_from sep acc [] = [rev acc]"
| "split_once_from sep acc (c # cs) =
     (if sep \<noteq> [] \<and> prefix sep (c # cs)
      then [rev acc, drop (length sep) (c # cs)]
      else split_once_from sep (c # acc) cs)"

definition split_once :: "string \<Rightarrow> string \<Rightarrow> string list" where
  "split_once sep s = split_once_from sep [] s"

text \<open>\<open>d.get(key, default)\<close> on an optional field.\<close>

definition get_or :: "'a option \<Rightarrow> 'a \<Rightarrow> 'a" where
  "get_or field dflt = (case field of Some v \<Rightarrow> v | None \<Rightarrow> dflt)"


section \<open>The tool-status classifier: \<open>get_tool_status\<close> (agent/app.py, lines 211-247)\<close>

text \<open>The status messages, byte for byte as the source file spells them.\<close>

definition msg_searching_products :: string where
  "msg_searching_products = [CHR 0xF0, CHR 0x9F, CHR 0x94, CHR 0x8D] @ '' Searching products...''"

definition msg_querying_database :: string where
  "msg_querying_database = [CHR 0xF0, CHR 0x9F, CHR 0x94, CHR 0x8D] @ '' Querying database...''"

definition msg_getting_time :: string where
  "msg_getting_time = [CHR 0xE2, CHR 0x8F, CHR 0xB0] @ '' Getting current time...''"

definition msg_generating_image :: string where
  "msg_generating_image = [CHR 0xF0, CHR 0x9F, CHR 0x8E, CHR 0xA8] @ '' Generating image...''"

definition msg_searching_web :: string where
  "msg_searching_web = [CHR 0xF0, CHR 0x9F, CHR 0x94, CHR 0x8E] @ '' Searching the web...''"

definition msg_running_code :: string where
  "msg_running_code = [CHR 0xF0, CHR 0x9F, CHR 0x92, CHR 0xBB] @ '' Running code...''"

definition msg_using :: "string \<Rightarrow> string" where
  "msg_using what =
     [CHR 0xE2, CHR 0x9A, CHR 0x99, CHR 0xEF, CHR 0xB8, CHR 0x8F] @ '' Using '' @ what @ ''...''"

definition db_terms :: "string list" where
  "db_terms = [''query'', ''sql'', ''database'', ''db'', ''sales'', ''customer'', ''order'',
               ''product'']"

text \<open>The \<open>if\<close>/\<open>elif\<close> chain of the loop body, on the lower-cased name; \<open>None\<close> when no
  branch returns.\<close>

definition status_rule :: "string \<Rightarrow> string option" where
  "status_rule name_lower =
     (if contains ''semantic_search'' name_lower then Some msg_searching_products
      else if contains ''execute_sales_query'' name_lower
              \<or> contains ''get_table_schemas'' name_lower then Some msg_querying_database
      else if contains ''get_current_utc_date'' name_lower then Some msg_getting_time
      else if contains ''image'' name_lower \<or> contains ''generate_image'' name_lower
        then Some msg_generating_image
      else if contains ''web_search'' name_lower then Some msg_searching_web
      else if contains ''code_interpreter'' name_lower \<or> contains ''code'' name_lower
        then Some msg_running_code
      else if list_ex (\<lambda>db_term. contains db_term name_lower) db_terms
        then Some msg_querying_database
      else None)"

text \<open>The \<open>for name in tool_names\<close> loop: the first name with a matching rule decides.\<close>

fun first_status :: "string list \<Rightarrow> string option" where
  "first_status [] = None"
| "first_status (name # names) =
     (case status_rule (if name \<noteq> [] then lower name else []) of
        Some msg \<Rightarrow> Some msg
      | None \<Rightarrow> first_status names)"

definition get_tool_status :: "string list \<Rightarrow> string" where
  "get_tool_status tool_names =
     (case first_status tool_names of
        Some msg \<Rightarrow> msg
      | None \<Rightarrow> msg_using (if tool_names \<noteq> [] then hd tool_names else ''tool''))"


section \<open>Data model of the streaming endpoint\<close>

text \<open>
  Values decoded by \<open>json.loads\<close>. A number keeps its literal; an object keeps its members
  in source order, and a lookup takes the last member with the key, as a Python \<open>dict\<close>
  built from the text does.
\<close>

datatype json =
    JNull
  | JBool bool
  | JNum string
  | JStr string
  | JArr "json list"
  | JObj "(string \<times> json) list"

definition dict_get :: "(string \<times> json) list \<Rightarrow> string \<Rightarrow> json option" where
  "dict_get members key = map_of (rev members) key"

text \<open>
  The three outcomes of \<open>json.loads\<close>: it returns the decoded value, it raises
  \<open>json.JSONDecodeError\<close> (the one exception the endpoint catches, lines 289 and 548), or it
  raises another exception, named by the string: \<open>RecursionError\<close> on a text nested too
  deeply, \<open>ValueError\<close> on an integer literal longer than the interpreter's digit limit.
\<close>

datatype decoded = Decoded json | JSONDecodeError | Raised string

text \<open>
  The decoder is a parameter of the model. A text whose first character is an opening brace
  can only decode to an object; \<open>decoder_ok\<close> records that property of \<open>json.loads\<close>.
\<close>

type_synonym decoder = "string \<Rightarrow> decoded"


definition raises :: "decoder \<Rightarrow> string \<Rightarrow> bool" where
  "raises loads s = (case loads s of Raised exn \<Rightarrow> True | _ \<Rightarrow> False)"

text \<open>The dictionary \<open>image_data\<close> that is both appended to \<open>images\<close> and sent to the client.\<close>

record image_data =
  img_base64 :: json
  img_format :: json

text \<open>
  The lines written to the response body, before \<open>json.dumps\<close>: \<open>{"chunk": text}\<close>,
  \<open>{"status": msg}\<close> (the empty message clears the status), \<open>{"image": image_data}\<close> and
  the final \<open>{"message", "role", "images", "done": true}\<close>.
\<close>

datatype out_event =
    Chunk string
  | Status string
  | ImageOut image_data
  | Done string string "image_data list"

text \<open>
  An entry of a \<open>files\<close> output and an entry of an \<open>outputs\<close> list. Every field is
  optional, as the code reads each with \<open>.get\<close>. A field that is present holds a value
  of the type the agent library delivers there (a string, a list of entries); values of other
  types, on which Python would raise, are not part of the model.
\<close>

record file_info =
  file_data :: "string option"
  mime_type :: "string option"

record dict_output =
  o_type :: "string option"
  o_url :: "string option"
  o_base64 :: "string option"
  o_data :: "string option"
  o_format :: "string option"
  o_files :: "file_info list option"

datatype output_entry = DictOutput dict_output | OtherOutput

text \<open>
  A content block is a \<open>dict\<close> (the Responses API format) or some other object, of which the
  code probes the attributes \<open>text\<close>, \<open>type\<close>, \<open>base64\<close>, \<open>data\<close> and \<open>format\<close>
  (\<open>None\<close> where the attribute is missing).
\<close>

record dict_block =
  b_type :: "string option"
  b_text :: "string option"
  b_name :: "string option"
  b_outputs :: "output_entry list option"
  b_url :: "string option"
  b_base64 :: "string option"
  b_format :: "string option"

record obj_block =
  ob_text :: "string option"
  ob_type :: "string option"
  ob_base64 :: "string option"
  ob_data :: "string option"
  ob_format :: "string option"

datatype block = DictBlock dict_block | ObjBlock obj_block

datatype content = Text string | Blocks "block list"

text \<open>
  \<open>response_metadata\<close>: the outputs under \<open>code_interpreter_call\<close> and the top-level
  \<open>outputs\<close>, each \<open>None\<close> when the key is missing.
\<close>

record response_metadata =
  rm_code_interpreter_outputs :: "output_entry list option"
  rm_outputs :: "output_entry list option"

text \<open>
  A message of the agent's stream, as far as the endpoint inspects it. A tool call is
  represented by the name the code extracts from it, \<open>None\<close> when it has none;
  \<open>tool_calls\<close> and \<open>additional_kwargs\<close> are \<open>None\<close> when the attribute (for the
  latter, also its key \<open>tool_calls\<close>) is missing, \<open>response_metadata\<close> when it is
  missing or not a \<open>dict\<close>.
\<close>

type_synonym tool_call = "string option"

record token =
  msg_type :: "string option"
  content :: "content option"
  tool_calls :: "tool_call list option"
  additional_kwargs :: "tool_call list option"
  response_metadata :: "response_metadata option"

text \<open>The three local variables of \<open>generate_stream\<close>.\<close>

record state =
  full_response :: string
  images :: "image_data list"
  tool_in_progress :: bool

text \<open>
  What can leave the generator: the \<open>AttributeError\<close> of calling \<open>.get\<close> on a decoded
  value that is not a \<open>dict\<close>, an exception of \<open>json.loads\<close> that the endpoint does not
  catch, with its name, and the exception raised by the agent's stream, with its message.
\<close>

datatype error = AttributeError | DecoderError string | UpstreamError string


section \<open>Emitting events\<close>

text \<open>A piece of the generator's body: it runs on the state and yields events in order.\<close>

type_synonym emitter = "state \<Rightarrow> out_event list \<times> state"

definition skip :: emitter where
  "skip st = ([], st)"

definition seq :: "emitter \<Rightarrow> emitter \<Rightarrow> emitter" where
  "seq f g st = (case f st of (out1, st1) \<Rightarrow> (case g st1 of (out2, st2) \<Rightarrow> (out1 @ out2, st2)))"

fun foreach :: "('a \<Rightarrow> emitter) \<Rightarrow> 'a list \<Rightarrow> emitter" where
  "foreach body [] = skip"
| "foreach body (x # xs) = seq (body x) (foreach body xs)"

text \<open>\<open>full_response += text; yield json.dumps({"chunk": text})\<close>\<close>

definition yield_chunk :: "string \<Rightarrow> emitter" where
  "yield_chunk text st = ([Chunk text], st\<lparr>full_response := full_response st @ text\<rparr>)"

text \<open>\<open>images.append(image_data); yield json.dumps({"image": image_data})\<close>\<close>

definition yield_image :: "image_data \<Rightarrow> emitter" where
  "yield_image img st = ([ImageOut img], st\<lparr>images := images st @ [img]\<rparr>)"

text \<open>\<open>tool_in_progress = True; yield json.dumps({"status": status_msg})\<close>\<close>

definition set_status :: "string \<Rightarrow> emitter" where
  "set_status status_msg st = ([Status status_msg], st\<lparr>tool_in_progress := True\<rparr>)"

text \<open>\<open>tool_in_progress = False; yield json.dumps({"status": ""})\<close>\<close>

definition clear_status :: emitter where
  "clear_status st = ([Status []], st\<lparr>tool_in_progress := False\<rparr>)"


text \<open>\<open>if not tool_in_progress: ...\<close> and \<open>if tool_in_progress: ...\<close>\<close>

definition when_idle :: "emitter \<Rightarrow> emitter" where
  "when_idle body st = (if \<not> tool_in_progress st then body st else skip st)"

definition when_active :: "emitter \<Rightarrow> emitter" where
  "when_active body st = (if tool_in_progress st then body st else skip st)"


section \<open>The body of \<open>generate_stream\<close> (agent/app.py, lines 250-564)\<close>

subsection \<open>Tool results (lines 268-291)\<close>

text \<open>
  \<open>json.loads\<close> is called inside \<open>try\<close> with \<open>except json.JSONDecodeError: pass\<close>: any
  other exception it raises leaves the generator.
\<close>

definition tool_result :: "decoder \<Rightarrow> token \<Rightarrow> state \<Rightarrow> (out_event list \<times> state) \<times> error option" where
  "tool_result loads tok st =
     (case content tok of
        Some (Text tool_content) \<Rightarrow>
          if tool_content \<noteq> [] \<and> contains ''base64'' tool_content
             \<and> (contains ''image'' tool_content \<or> contains ''png'' tool_content)
          then (case loads tool_content of
                  Decoded (JObj tool_data) \<Rightarrow>
                    if dict_get tool_data ''type'' = Some (JStr ''image'')
                    then (yield_image
                            \<lparr>img_base64 = get_or (dict_get tool_data ''base64'') (JStr []),
                             img_format = get_or (dict_get tool_data ''format'') (JStr ''png'')\<rparr> st,
                          None)
                    else (skip st, None)
                | Decoded _ \<Rightarrow> (skip st, None)
                | JSONDecodeError \<Rightarrow> (skip st, None)
                | Raised exn \<Rightarrow> (([], st), Some (DecoderError exn)))
          else (skip st, None)
      | _ \<Rightarrow> (skip st, None))"

subsection \<open>Tool call announcements (lines 294-323)\<close>

definition call_name :: "tool_call \<Rightarrow> string" where
  "call_name tc = get_or tc ''tool''"

text \<open>The truth value of \<open>token.tool_calls\<close>: the attribute is there and the list not empty.\<close>

definition has_calls :: "tool_call list option \<Rightarrow> bool" where
  "has_calls calls = (case calls of Some tcs \<Rightarrow> tcs \<noteq> [] | None \<Rightarrow> False)"

definition announce_tools :: "tool_call list option \<Rightarrow> emitter" where
  "announce_tools calls =
     when_idle (set_status (get_tool_status (map call_name (get_or calls []))))"

subsection \<open>Images in the response metadata (lines 339-379)\<close>

definition file_image :: "file_info \<Rightarrow> emitter" where
  "file_image file =
     (if contains ''image'' (get_or (mime_type file) [])
      then yield_image
             \<lparr>img_base64 = JStr (get_or (file_data file) []),
              img_format = JStr (last (split ''/'' (get_or (mime_type file) ''image/png'')))\<rparr>
      else skip)"

definition metadata_output :: "output_entry \<Rightarrow> emitter" where
  "metadata_output entry =
     (case entry of
        OtherOutput \<Rightarrow> skip
      | DictOutput d \<Rightarrow>
          if o_type d = Some ''files'' then foreach file_image (get_or (o_files d) [])
          else if o_type d = Some ''image''
          then yield_image
                 \<lparr>img_base64 = JStr (get_or (o_base64 d) (get_or (o_data d) [])),
                  img_format = JStr (get_or (o_format d) ''png'')\<rparr>
          else skip)"

definition metadata_outputs :: "response_metadata \<Rightarrow> output_entry list" where
  "metadata_outputs resp_meta =
     (let outputs = get_or (rm_code_interpreter_outputs resp_meta) []
      in if outputs = [] then get_or (rm_outputs resp_meta) [] else outputs)"

definition metadata_images :: "response_metadata option \<Rightarrow> emitter" where
  "metadata_images meta =
     (case meta of
        None \<Rightarrow> skip
      | Some resp_meta \<Rightarrow> foreach metadata_output (metadata_outputs resp_meta))"

subsection \<open>Content blocks (lines 383-534)\<close>

text \<open>The branch taken when \<open>url.startswith("data:image/")\<close> (lines 438-462 and 486-503).\<close>

definition data_uri_image :: "string \<Rightarrow> emitter" where
  "data_uri_image url =
     (let parts = split_once '','' url
      in if length parts = 2
         then (let mime_part = parts ! 0;
                   b64_data = parts ! 1;
                   img_fmt = (if contains ''image/'' mime_part
                              then hd (split '';'' (split ''image/'' mime_part ! 1))
                              else ''png'')
               in yield_image \<lparr>img_base64 = JStr b64_data, img_format = JStr img_fmt\<rparr>)
         else skip)"

text \<open>One output of a \<open>code_interpreter_call\<close> block (lines 433-481).\<close>

definition code_interpreter_output :: "output_entry \<Rightarrow> emitter" where
  "code_interpreter_output entry =
     (case entry of
        OtherOutput \<Rightarrow> skip
      | DictOutput d \<Rightarrow>
          if o_type d = Some ''image''
          then (let url = get_or (o_url d) []
                in if prefix ''data:image/'' url then data_uri_image url
                   else (let b64 = get_or (o_base64 d) (get_or (o_data d) [])
                         in if b64 \<noteq> []
                            then yield_image
                                   \<lparr>img_base64 = JStr b64,
                                    img_format = JStr (get_or (o_format d) ''png'')\<rparr>
                            else skip))
          else skip)"

definition code_interpreter_call :: "output_entry list \<Rightarrow> emitter" where
  "code_interpreter_call outputs =
     seq (when_idle (if outputs = [] then set_status msg_running_code else skip))
         (seq (if outputs \<noteq> [] then when_active clear_status else skip)
              (foreach code_interpreter_output outputs))"

definition image_block :: "dict_block \<Rightarrow> emitter" where
  "image_block blk =
     (let url = get_or (b_url blk) []
      in if prefix ''data:image/'' url then data_uri_image url
         else (let b64 = get_or (b_base64 blk) []
               in if b64 \<noteq> []
                  then yield_image
                         \<lparr>img_base64 = JStr b64, img_format = JStr (get_or (b_format blk) ''png'')\<rparr>
                  else skip))"

definition text_chunk :: "string \<Rightarrow> emitter" where
  "text_chunk text = (if text \<noteq> [] then yield_chunk text else skip)"

definition process_dict_block :: "dict_block \<Rightarrow> emitter" where
  "process_dict_block blk =
     (if b_type blk = Some ''text'' then text_chunk (get_or (b_text blk) [])
      else if b_type blk = Some ''reasoning'' then skip
      else if b_type blk = Some ''server_tool_call''
        then when_idle (set_status (get_tool_status [get_or (b_name blk) ''tool'']))
      else if b_type blk = Some ''server_tool_result'' then when_active clear_status
      else if b_type blk = Some ''code_interpreter_call''
        then code_interpreter_call (get_or (b_outputs blk) [])
      else if b_type blk = Some ''image'' then image_block blk
      else skip)"

text \<open>Blocks that are not a \<open>dict\<close> (lines 517-534).\<close>

definition process_obj_block :: "obj_block \<Rightarrow> emitter" where
  "process_obj_block blk =
     (case ob_text blk of
        Some text \<Rightarrow> text_chunk text
      | None \<Rightarrow>
          if ob_type blk = Some ''image''
          then (let b64 = get_or (ob_base64 blk) (get_or (ob_data blk) [])
                in if b64 \<noteq> []
                   then yield_image
                          \<lparr>img_base64 = JStr b64, img_format = JStr (get_or (ob_format blk) ''png'')\<rparr>
                   else skip)
          else skip)"

definition process_block :: "block \<Rightarrow> emitter" where
  "process_block blk =
     (case blk of DictBlock d \<Rightarrow> process_dict_block d | ObjBlock b \<Rightarrow> process_obj_block b)"

subsection \<open>Plain string content (lines 535-551)\<close>

text \<open>
  Here too only \<open>json.JSONDecodeError\<close> is caught, and \<open>img_data.get\<close> raises on a
  decoded value that is not a \<open>dict\<close>.
\<close>

definition string_content :: "decoder \<Rightarrow> string \<Rightarrow> state \<Rightarrow> (out_event list \<times> state) \<times> error option" where
  \<open>string_content loads text st =
     (if prefix ''{'' text \<and> contains ''"type": "image"'' text
      then (case loads text of
              JSONDecodeError \<Rightarrow> (yield_chunk text st, None)
            | Raised exn \<Rightarrow> (([], st), Some (DecoderError exn))
            | Decoded (JObj img_data) \<Rightarrow>
                if dict_get img_data ''type'' = Some (JStr ''image'')
                then (yield_image
                        \<lparr>img_base64 = get_or (dict_get img_data ''base64'') (JStr []),
                         img_format = get_or (dict_get img_data ''format'') (JStr ''png'')\<rparr> st,
                      None)
                else (yield_chunk text st, None)
            | Decoded _ \<Rightarrow> (([], st), Some AttributeError))
      else (yield_chunk text st, None))\<close>

subsection \<open>One message of the stream, and the whole generator\<close>

definition is_tool_message :: "token \<Rightarrow> bool" where
  "is_tool_message tok = (msg_type tok = Some ''tool'' \<or> msg_type tok = Some ''function'')"

definition is_empty_content :: "content \<Rightarrow> bool" where
  "is_empty_content c = (case c of Text s \<Rightarrow> s = [] | Blocks bs \<Rightarrow> bs = [])"

definition process_content :: "decoder \<Rightarrow> token \<Rightarrow> state \<Rightarrow> (out_event list \<times> state) \<times> error option" where
  "process_content loads tok st =
     (case content tok of
        None \<Rightarrow> (([], st), None)
      | Some c \<Rightarrow>
          if is_empty_content c then (([], st), None)
          else (case metadata_images (response_metadata tok) st of
                  (out1, st1) \<Rightarrow>
                    (case c of
                       Blocks bs \<Rightarrow>
                         (case foreach process_block bs st1 of
                            (out2, st2) \<Rightarrow> ((out1 @ out2, st2), None))
                     | Text s \<Rightarrow>
                         (case string_content loads s st1 of
                            ((out2, st2), err) \<Rightarrow> ((out1 @ out2, st2), err)))))"

definition process_token :: "decoder \<Rightarrow> token \<Rightarrow> state \<Rightarrow> (out_event list \<times> state) \<times> error option" where
  "process_token loads tok st =
     (if is_tool_message tok then tool_result loads tok st
      else if has_calls (tool_calls tok) then (announce_tools (tool_calls tok) st, None)
      else if has_calls (additional_kwargs tok)
        then (announce_tools (additional_kwargs tok) st, None)
      else (case when_active clear_status st of
              (out1, st1) \<Rightarrow>
                (case process_content loads tok st1 of
                   ((out2, st2), err) \<Rightarrow> ((out1 @ out2, st2), err))))"

text \<open>The \<open>async for\<close> loop: an exception raised in the body ends it.\<close>

fun process_tokens :: "decoder \<Rightarrow> token list \<Rightarrow> state \<Rightarrow> (out_event list \<times> state) \<times> error option" where
  "process_tokens loads [] st = (([], st), None)"
| "process_tokens loads (tok # toks) st =
     (case process_token loads tok st of
        ((out1, st1), Some e) \<Rightarrow> ((out1, st1), Some e)
      | ((out1, st1), None) \<Rightarrow>
          (case process_tokens loads toks st1 of
             ((out2, st2), err) \<Rightarrow> ((out1 @ out2, st2), err)))"

definition initial_state :: state where
  "initial_state = \<lparr>full_response = [], images = [], tool_in_progress = False\<rparr>"

text \<open>
  The agent's stream delivers the messages \<open>toks\<close> and then either ends
  (\<open>failure = None\<close>) or raises (\<open>failure = Some msg\<close>). The result is the list of events
  written to the response and the exception that left the generator, if any.
\<close>

definition generate_stream :: "decoder \<Rightarrow> token list \<Rightarrow> string option \<Rightarrow> out_event list \<times> error option" where
  "generate_stream loads toks failure =
     (case process_tokens loads toks initial_state of
        ((out, st), Some e) \<Rightarrow> (out, Some e)
      | ((out, st), None) \<Rightarrow>
          (case failure of
             Some msg \<Rightarrow> (out, Some (UpstreamError msg))
           | None \<Rightarrow> (out @ [Done (full_response st) ''assistant'' (images st)], None)))"


section \<open>Observations on the event stream\<close>

text \<open>The texts of the \<open>chunk\<close> lines and the records of the \<open>image\<close> lines, in order.\<close>

fun chunk_texts :: "out_event list \<Rightarrow> string list" where
  "chunk_texts [] = []"
| "chunk_texts (Chunk text # evs) = text # chunk_texts evs"
| "chunk_texts (ev # evs) = chunk_texts evs"

fun event_images :: "out_event list \<Rightarrow> image_data list" where
  "event_images [] = []"
| "event_images (ImageOut img # evs) = img # event_images evs"
| "event_images (ev # evs) = event_images evs"

fun is_done :: "out_event \<Rightarrow> bool" where
  "is_done (Done message role imgs) = True"
| "is_done ev = False"

text \<open>
  \<open>status_trace active out\<close> replays the status lines of \<open>out\<close>, starting with a status
  showing (\<open>active\<close>) or not: a non-empty status must find none showing, an empty one (the
  clear) must find one showing, and the final line resets. \<open>None\<close> reports a violation,
  \<open>Some b\<close> whether a status is showing at the end.
\<close>

fun status_trace :: "bool \<Rightarrow> out_event list \<Rightarrow> bool option" where
  "status_trace active [] = Some active"
| "status_trace active (Status msg # evs) =
     (if msg = [] then (if active then status_trace False evs else None)
      else (if active then None else status_trace True evs))"
| "status_trace active (Done message role imgs # evs) = status_trace False evs"
| "status_trace active (ev # evs) = status_trace active evs"

text \<open>
  \<open>tracks st out st'\<close>: running from \<open>st\<close> to \<open>st'\<close> while writing \<open>out\<close>, the text
  and the images accumulated are those written, the flag follows the status lines, and no
  final line was written.
\<close>

definition tracks :: "state \<Rightarrow> out_event list \<Rightarrow> state \<Rightarrow> bool" where
  "tracks st out st' =
     (full_response st' = full_response st @ concat (chunk_texts out)
      \<and> images st' = images st @ event_images out
      \<and> status_trace (tool_in_progress st) out = Some (tool_in_progress st')
      \<and> filter is_done out = [])"

definition sound :: "emitter \<Rightarrow> bool" where
  "sound f = (\<forall>st. tracks st (fst (f st)) (snd (f st)))"

text \<open>
  An object whose \<open>base64\<close> member is an integer literal of 4301 digits, one more than the
  4300 that Python converts by default: on this text \<open>json.loads\<close> raises \<open>ValueError\<close>.
\<close>

definition long_digits :: string where
  "long_digits = replicate 4301 CHR ''1''"

definition long_integer_text :: string where
  \<open>long_integer_text = ''{"type": "image", "base64": '' @ long_digits @ ''}''\<close>

text \<open>
  The outcomes of \<open>json.loads\<close> at the texts used in the examples of this theory: two image
  objects (with and without a space after the colon) and the text with the long integer; every
  other text used below is not JSON.
\<close>

definition example_loads :: decoder where
  \<open>example_loads s =
     (if s = ''{"type": "image", "base64": "QUJD", "format": "jpeg"}''
      then Decoded (JObj [(''type'', JStr ''image''), (''base64'', JStr ''QUJD''),
                          (''format'', JStr ''jpeg'')])
      else if s = ''{"type":"image","base64":"QUJD"}''
      then Decoded (JObj [(''type'', JStr ''image''), (''base64'', JStr ''QUJD'')])
      else if s = long_integer_text then Raised ''ValueError''
      else JSONDecodeError)\<close>

text \<open>
  \<open>json.loads\<close> returns or raises \<open>json.JSONDecodeError\<close> on the plain-string content of
  the message, if it has one.
\<close>

definition decodes_quietly :: "decoder \<Rightarrow> token \<Rightarrow> bool" where
  "decodes_quietly loads tok =
     (case content tok of Some (Text s) \<Rightarrow> \<not> raises loads s | _ \<Rightarrow> True)"


section \<open>The extractor's results, stated on the text\<close>

text \<open>
  The text before and after the first occurrence of a separator, and the text after the last
  occurrence of a character: the words in which the design describes what the extractor cuts
  out of a data URI and of a MIME type.
\<close>

fun before_first :: "string \<Rightarrow> string \<Rightarrow> string" where
  "before_first sep [] = []"
| "before_first sep (c # cs) = (if prefix sep (c # cs) then [] else c # before_first sep cs)"

fun after_first :: "string \<Rightarrow> string \<Rightarrow> string" where
  "after_first sep [] = []"
| "after_first sep (c # cs) =
     (if prefix sep (c # cs) then drop (length sep) (c # cs) else after_first sep cs)"

definition after_last_char :: "char \<Rightarrow> string \<Rightarrow> string" where
  "after_last_char c s = rev (takeWhile (\<lambda>x. x \<noteq> c) (rev s))"

text \<open>
  Data-URI form: the URL is cut at its first comma into a MIME part and the payload; the
  format is the text of the MIME part between \<open>image/\<close> and the next \<open>;\<close> (or the next
  \<open>image/\<close>), \<open>png\<close> when the MIME part has no \<open>image/\<close>. No comma, no record.
\<close>

definition data_uri_record :: "string \<Rightarrow> image_data list" where
  "data_uri_record url =
     (if contains '','' url
      then [\<lparr>img_base64 = JStr (after_first '','' url),
             img_format =
               JStr (if contains ''image/'' (before_first '','' url)
                     then before_first '';''
                            (before_first ''image/'' (after_first ''image/'' (before_first '','' url)))
                     else ''png'')\<rparr>]
      else [])"

text \<open>
  The records found in one output of a \<open>code_interpreter_call\<close> block: outputs of type
  \<open>image\<close> only, as a data URI or with a non-empty direct payload (\<open>base64\<close>, else
  \<open>data\<close>).
\<close>

definition block_output_images :: "output_entry \<Rightarrow> image_data list" where
  "block_output_images entry =
     (case entry of
        OtherOutput \<Rightarrow> []
      | DictOutput d \<Rightarrow>
          if o_type d \<noteq> Some ''image'' then []
          else if prefix ''data:image/'' (get_or (o_url d) []) then data_uri_record (get_or (o_url d) [])
          else if get_or (o_base64 d) (get_or (o_data d) []) = [] then []
          else [\<lparr>img_base64 = JStr (get_or (o_base64 d) (get_or (o_data d) [])),
                 img_format = JStr (get_or (o_format d) ''png'')\<rparr>])"

text \<open>
  Files form: one record per file whose MIME type contains \<open>image\<close>, the format being the
  text after the last slash of the MIME type.
\<close>

definition file_images :: "file_info list \<Rightarrow> image_data list" where
  "file_images files =
     map (\<lambda>file. \<lparr>img_base64 = JStr (get_or (file_data file) []),
                   img_format = JStr (after_last_char CHR ''/'' (get_or (mime_type file) []))\<rparr>)
         (filter (\<lambda>file. contains ''image'' (get_or (mime_type file) [])) files)"





section \<open>Example messages\<close>

definition blank_token :: token where
  "blank_token =
     \<lparr>msg_type = Some ''AIMessageChunk'', content = None, tool_calls = Some [],
      additional_kwargs = Some [], response_metadata = None\<rparr>"

definition text_token :: "string \<Rightarrow> token" where
  "text_token s = blank_token\<lparr>content := Some (Text s)\<rparr>"

definition blocks_token :: "block list \<Rightarrow> token" where
  "blocks_token bs = blank_token\<lparr>content := Some (Blocks bs)\<rparr>"

definition tool_call_token :: "string \<Rightarrow> token" where
  "tool_call_token name = blank_token\<lparr>content := Some (Text []), tool_calls := Some [Some name]\<rparr>"

definition tool_message :: "string \<Rightarrow> token" where
  "tool_message s =
     \<lparr>msg_type = Some ''tool'', content = Some (Text s), tool_calls = None,
      additional_kwargs = Some [], response_metadata = None\<rparr>"

definition blank_block :: dict_block where
  "blank_block =
     \<lparr>b_type = None, b_text = None, b_name = None, b_outputs = None, b_url = None,
      b_base64 = None, b_format = None\<rparr>"

definition blank_output :: dict_output where
  "blank_output =
     \<lparr>o_type = None, o_url = None, o_base64 = None, o_data = None, o_format = None,
      o_files = None\<rparr>"

definition png_files_output :: output_entry where
  "png_files_output =
     DictOutput (blank_output\<lparr>o_type := Some ''files'',
        o_files := Some [\<lparr>file_data = Some ''QUJD'', mime_type = Some ''image/png''\<rparr>]\<rparr>)"

definition jpeg_uri_output :: output_entry where
  "jpeg_uri_output =
     DictOutput (blank_output\<lparr>o_type := Some ''image'',
        o_url := Some ''data:image/jpeg;base64,QUJD''\<rparr>)"

definition code_block :: "output_entry list \<Rightarrow> block" where
  "code_block outputs =
     DictBlock (blank_block\<lparr>b_type := Some ''code_interpreter_call'', b_outputs := Some outputs\<rparr>)"


definition metadata_only_token :: token where
  "metadata_only_token =
     blank_token\<lparr>content := Some (Text []),
       response_metadata := Some \<lparr>rm_code_interpreter_outputs = Some [png_files_output],
                                  rm_outputs = Some [jpeg_uri_output]\<rparr>\<rparr>"

definition no_comma_uri_output :: output_entry where
  "no_comma_uri_output =
     DictOutput (blank_output\<lparr>o_type := Some ''image'', o_url := Some ''data:image/png;base64'',
        o_base64 := Some ''QQ==''\<rparr>)"

definition direct_output :: output_entry where
  "direct_output = DictOutput (blank_output\<lparr>o_type := Some ''image'', o_base64 := Some ''QQ==''\<rparr>)"

definition code_metadata_token :: token where
  "code_metadata_token =
     blank_token\<lparr>content := Some (Blocks [code_block
         [jpeg_uri_output, no_comma_uri_output, direct_output, png_files_output]]),
       response_metadata := Some \<lparr>rm_code_interpreter_outputs = None,
                                  rm_outputs = Some [png_files_output]\<rparr>\<rparr>"



section \<open>The generator's variables follow the events it writes\<close>

lemma chunk_texts_append: "chunk_texts (xs @ ys) = chunk_texts xs @ chunk_texts ys"
  by (induction xs rule: chunk_texts.induct) simp_all

lemma event_images_append: "event_images (xs @ ys) = event_images xs @ event_images ys"
  by (induction xs rule: event_images.induct) simp_all

lemma status_trace_append:
  "status_trace a (xs @ ys) = (case status_trace a xs of None \<Rightarrow> None | Some b \<Rightarrow> status_trace b ys)"
  by (induction a xs rule: status_trace.induct) simp_all

lemma tracks_nil: "tracks st [] st"
  by (simp add: tracks_def)

lemma tracks_append:
  "tracks st out1 st1 \<Longrightarrow> tracks st1 out2 st2 \<Longrightarrow> tracks st (out1 @ out2) st2"
  by (simp add: tracks_def chunk_texts_append event_images_append status_trace_append)

lemma sound_skip: "sound skip"
  by (simp add: sound_def skip_def tracks_nil)

lemma sound_seq: "sound f \<Longrightarrow> sound g \<Longrightarrow> sound (seq f g)"
  unfolding sound_def
proof
  fix st
  assume f: "\<forall>st. tracks st (fst (f st)) (snd (f st))"
    and g: "\<forall>st. tracks st (fst (g st)) (snd (g st))"
  obtain o1 s1 where 1: "f st = (o1, s1)" by (cases "f st")
  obtain o2 s2 where 2: "g s1 = (o2, s2)" by (cases "g s1")
  from f 1 have "tracks st o1 s1" by (metis fst_conv snd_conv)
  moreover from g 2 have "tracks s1 o2 s2" by (metis fst_conv snd_conv)
  ultimately have "tracks st (o1 @ o2) s2" by (rule tracks_append)
  then show "tracks st (fst (seq f g st)) (snd (seq f g st))"
    by (simp add: seq_def 1 2)
qed

lemma sound_foreach: "(\<And>x. sound (body x)) \<Longrightarrow> sound (foreach body xs)"
  by (induction xs) (simp_all add: sound_skip sound_seq)

lemma sound_yield_chunk: "sound (yield_chunk text)"
  by (simp add: sound_def yield_chunk_def tracks_def)

lemma sound_yield_image: "sound (yield_image img)"
  by (simp add: sound_def yield_image_def tracks_def)

lemma sound_when_idle_set: "msg \<noteq> [] \<Longrightarrow> sound (when_idle (set_status msg))"
  by (simp add: sound_def when_idle_def set_status_def skip_def tracks_def)

lemma sound_when_active_clear: "sound (when_active clear_status)"
  by (simp add: sound_def when_active_def clear_status_def skip_def tracks_def)

lemma status_rule_nonempty: "status_rule n = Some msg \<Longrightarrow> msg \<noteq> []"
  by (auto simp: status_rule_def msg_searching_products_def msg_querying_database_def
      msg_getting_time_def msg_generating_image_def msg_searching_web_def msg_running_code_def
      split: if_splits)

lemma first_status_nonempty: "first_status names = Some msg \<Longrightarrow> msg \<noteq> []"
  by (induction names) (auto split: option.splits dest: status_rule_nonempty)

lemma get_tool_status_nonempty: "get_tool_status names \<noteq> []"
  by (auto simp: get_tool_status_def msg_using_def split: option.splits dest: first_status_nonempty)

lemma sound_text_chunk: "sound (text_chunk text)"
  by (simp add: text_chunk_def sound_yield_chunk sound_skip)

lemma sound_announce_tools: "sound (announce_tools calls)"
  by (simp add: announce_tools_def sound_when_idle_set get_tool_status_nonempty)

lemma sound_file_image: "sound (file_image file)"
  by (simp add: file_image_def sound_yield_image sound_skip)

lemma sound_metadata_output: "sound (metadata_output entry)"
  by (simp add: metadata_output_def sound_yield_image sound_skip sound_foreach sound_file_image
      split: output_entry.split)

lemma sound_metadata_images: "sound (metadata_images meta)"
  by (simp add: metadata_images_def sound_skip sound_foreach sound_metadata_output
      split: option.split)

lemma sound_data_uri_image: "sound (data_uri_image url)"
  by (simp add: data_uri_image_def Let_def sound_yield_image sound_skip)

lemma sound_code_interpreter_output: "sound (code_interpreter_output entry)"
  by (simp add: code_interpreter_output_def Let_def sound_yield_image sound_skip
      sound_data_uri_image split: output_entry.split)

lemma msg_running_code_nonempty: "msg_running_code \<noteq> []"
  by (simp add: msg_running_code_def)

lemma sound_when_idle_skip: "sound (when_idle skip)"
  by (simp add: sound_def when_idle_def skip_def tracks_nil)

lemma sound_code_interpreter_call: "sound (code_interpreter_call outputs)"
  by (simp add: code_interpreter_call_def sound_seq sound_foreach sound_skip
      sound_code_interpreter_output sound_when_idle_set sound_when_active_clear
      sound_when_idle_skip msg_running_code_nonempty)

lemma sound_image_block: "sound (image_block blk)"
  by (simp add: image_block_def Let_def sound_yield_image sound_skip sound_data_uri_image)

lemma sound_process_dict_block: "sound (process_dict_block blk)"
  by (simp add: process_dict_block_def sound_text_chunk sound_skip sound_when_idle_set
      get_tool_status_nonempty sound_when_active_clear sound_code_interpreter_call
      sound_image_block)

lemma sound_process_obj_block: "sound (process_obj_block blk)"
  by (simp add: process_obj_block_def Let_def sound_text_chunk sound_skip sound_yield_image
      split: option.split)

lemma sound_process_block: "sound (process_block blk)"
  by (simp add: process_block_def sound_process_dict_block sound_process_obj_block
      split: block.split)

lemma soundD: "sound f \<Longrightarrow> f st = (out, st') \<Longrightarrow> tracks st out st'"
  by (auto simp: sound_def dest: spec[where x=st])

lemma tracks_string_content:
  "string_content loads text st = ((out, st'), err) \<Longrightarrow> tracks st out st'"
  by (auto simp: string_content_def tracks_nil split: if_splits decoded.splits json.splits
      dest: soundD[OF sound_yield_chunk] soundD[OF sound_yield_image])

lemma tracks_tool_result:
  "tool_result loads tok st = ((out, st'), err) \<Longrightarrow> tracks st out st'"
  by (auto simp: tool_result_def tracks_nil skip_def
      split: if_splits option.splits content.splits decoded.splits json.splits
      dest: soundD[OF sound_yield_image])

lemma tracks_process_content:
  assumes "process_content loads tok st = ((out, st'), err)"
  shows "tracks st out st'"
proof (cases "content tok")
  case None
  with assms show ?thesis by (simp add: process_content_def tracks_nil)
next
  case (Some c)
  show ?thesis
  proof (cases "is_empty_content c")
    case True
    with Some assms show ?thesis by (simp add: process_content_def tracks_nil)
  next
    case False
    obtain out1 st1 where m: "metadata_images (response_metadata tok) st = (out1, st1)"
      by (cases "metadata_images (response_metadata tok) st")
    have t1: "tracks st out1 st1" using soundD[OF sound_metadata_images m] .
    show ?thesis
    proof (cases c)
      case (Text s)
      obtain out2 st2 err2 where sc: "string_content loads s st1 = ((out2, st2), err2)"
        by (metis surj_pair)
      have "tracks st1 out2 st2" using tracks_string_content[OF sc] .
      with t1 have "tracks st (out1 @ out2) st2" by (rule tracks_append)
      moreover from assms Some False Text m sc have "out = out1 @ out2" "st' = st2"
        by (simp_all add: process_content_def)
      ultimately show ?thesis by simp
    next
      case (Blocks bs)
      obtain out2 st2 where fb: "foreach process_block bs st1 = (out2, st2)"
        by (cases "foreach process_block bs st1")
      have "sound (foreach process_block bs)" by (simp add: sound_foreach sound_process_block)
      then have "tracks st1 out2 st2" using fb by (rule soundD)
      with t1 have "tracks st (out1 @ out2) st2" by (rule tracks_append)
      moreover from assms Some False Blocks m fb have "out = out1 @ out2" "st' = st2"
        by (simp_all add: process_content_def)
      ultimately show ?thesis by simp
    qed
  qed
qed

lemma tracks_process_token:
  assumes "process_token loads tok st = ((out, st'), err)"
  shows "tracks st out st'"
proof -
  consider (tool) "is_tool_message tok"
    | (calls) "\<not> is_tool_message tok" "has_calls (tool_calls tok)"
    | (kwargs) "\<not> is_tool_message tok" "\<not> has_calls (tool_calls tok)" "has_calls (additional_kwargs tok)"
    | (other) "\<not> is_tool_message tok" "\<not> has_calls (tool_calls tok)" "\<not> has_calls (additional_kwargs tok)"
    by blast
  then show ?thesis
  proof cases
    case tool
    with assms have "tool_result loads tok st = ((out, st'), err)" by (simp add: process_token_def)
    then show ?thesis by (rule tracks_tool_result)
  next
    case calls
    with assms have "announce_tools (tool_calls tok) st = (out, st')" by (simp add: process_token_def)
    then show ?thesis by (rule soundD[OF sound_announce_tools])
  next
    case kwargs
    with assms have "announce_tools (additional_kwargs tok) st = (out, st')" by (simp add: process_token_def)
    then show ?thesis by (rule soundD[OF sound_announce_tools])
  next
    case other
    obtain out1 st1 where c: "when_active clear_status st = (out1, st1)"
      by (cases "when_active clear_status st")
    obtain out2 st2 err2 where pc: "process_content loads tok st1 = ((out2, st2), err2)"
      by (metis surj_pair)
    have "tracks st out1 st1" using soundD[OF sound_when_active_clear c] .
    moreover have "tracks st1 out2 st2" using tracks_process_content[OF pc] .
    ultimately have "tracks st (out1 @ out2) st2" by (rule tracks_append)
    moreover from assms other c pc have "out = out1 @ out2" "st' = st2"
      by (simp_all add: process_token_def)
    ultimately show ?thesis by simp
  qed
qed

lemma tracks_process_tokens:
  "process_tokens loads toks st = ((out, st'), err) \<Longrightarrow> tracks st out st'"
proof (induction toks arbitrary: st out st' err)
  case Nil
  then show ?case by (simp add: tracks_nil)
next
  case (Cons tok toks)
  obtain out1 st1 err1 where pt: "process_token loads tok st = ((out1, st1), err1)"
    by (metis surj_pair)
  have t1: "tracks st out1 st1" using tracks_process_token[OF pt] .
  show ?case
  proof (cases err1)
    case (Some e)
    with Cons.prems pt have "out = out1" "st' = st1" by simp_all
    with t1 show ?thesis by simp
  next
    case None
    obtain out2 st2 err2 where rest: "process_tokens loads toks st1 = ((out2, st2), err2)"
      by (metis surj_pair)
    have "tracks st1 out2 st2" using Cons.IH[OF rest] .
    with t1 have "tracks st (out1 @ out2) st2" by (rule tracks_append)
    moreover from Cons.prems pt None rest have "out = out1 @ out2" "st' = st2" by simp_all
    ultimately show ?thesis by simp
  qed
qed



section \<open>No exception with a JSON decoder; the shape of the whole stream\<close>






lemma tracks_initial:
  "tracks initial_state out st \<Longrightarrow>
     full_response st = concat (chunk_texts out) \<and> images st = event_images out
     \<and> status_trace False out = Some (tool_in_progress st) \<and> filter is_done out = []"
  by (simp add: tracks_def initial_state_def)

lemma generate_stream_outcome:
  "\<exists>body st err. process_tokens loads toks initial_state = ((body, st), err)
     \<and> filter is_done body = [] \<and> status_trace False body \<noteq> None
     \<and> generate_stream loads toks failure =
         (case err of
            Some e \<Rightarrow> (body, Some e)
          | None \<Rightarrow>
              (case failure of
                 Some msg \<Rightarrow> (body, Some (UpstreamError msg))
               | None \<Rightarrow>
                   (body @ [Done (concat (chunk_texts body)) ''assistant'' (event_images body)],
                    None)))"
proof -
  obtain body st err where run: "process_tokens loads toks initial_state = ((body, st), err)"
    by (metis surj_pair)
  from tracks_initial[OF tracks_process_tokens[OF run]]
  have "full_response st = concat (chunk_texts body)" "images st = event_images body"
    "status_trace False body \<noteq> None" "filter is_done body = []" by simp_all
  with run show ?thesis by (simp add: generate_stream_def split: option.split)
qed

lemma generate_stream_complete:
  assumes "snd (generate_stream loads toks None) = None"
  shows "\<exists>body. generate_stream loads toks None =
           (body @ [Done (concat (chunk_texts body)) ''assistant'' (event_images body)], None)
         \<and> generate_stream loads toks (Some msg) = (body, Some (UpstreamError msg))
         \<and> filter is_done body = []"
proof -
  obtain body st err where run: "process_tokens loads toks initial_state = ((body, st), err)"
    by (metis surj_pair)
  from tracks_initial[OF tracks_process_tokens[OF run]]
  have facts: "full_response st = concat (chunk_texts body)" "images st = event_images body"
    "filter is_done body = []" by simp_all
  from assms run have err: "err = None"
    by (cases err) (simp_all add: generate_stream_def)
  with run facts show ?thesis by (simp add: generate_stream_def)
qed


lemma generate_stream_events:
  "\<exists>body st err. process_tokens loads toks initial_state = ((body, st), err)
     \<and> tracks initial_state body st
     \<and> (fst (generate_stream loads toks failure) = body
        \<or> fst (generate_stream loads toks failure) = body @ [Done (full_response st) ''assistant'' (images st)])"
proof -
  obtain body st err where run: "process_tokens loads toks initial_state = ((body, st), err)"
    by (metis surj_pair)
  have "tracks initial_state body st" using tracks_process_tokens[OF run] .
  moreover have "fst (generate_stream loads toks failure) = body
        \<or> fst (generate_stream loads toks failure) = body @ [Done (full_response st) ''assistant'' (images st)]"
    using run by (simp add: generate_stream_def split: option.split)
  ultimately show ?thesis using run by blast
qed


lemma text_token_quiet: "raises loads s = False \<Longrightarrow> decodes_quietly loads (text_token s)"
  by (simp add: decodes_quietly_def text_token_def blank_token_def)


section \<open>Python's \<open>split\<close> in terms of first and last occurrences\<close>

lemma split_from_nonempty: "split_from sep acc s \<noteq> []"
  by (induction sep acc s rule: split_from.induct) simp_all

lemma hd_split_from:
  "sep \<noteq> [] \<Longrightarrow> hd (split_from sep acc s) = rev acc @ before_first sep s"
  by (induction sep acc s rule: split_from.induct) simp_all

lemma hd_split: "sep \<noteq> [] \<Longrightarrow> hd (split sep s) = before_first sep s"
  by (simp add: split_def hd_split_from)

lemma second_split_from:
  "sep \<noteq> [] \<Longrightarrow> contains sep s \<Longrightarrow>
     split_from sep acc s ! 1 = before_first sep (after_first sep s)"
proof (induction sep acc s rule: split_from.induct)
  case (1 sep acc)
  then show ?case by simp
next
  case (2 sep acc c cs)
  show ?case
  proof (cases "prefix sep (c # cs)")
    case True
    with 2 show ?thesis
      by (simp add: hd_split_from hd_conv_nth[symmetric] split_from_nonempty)
  next
    case False
    with 2 show ?thesis by simp
  qed
qed

lemma second_split:
  "sep \<noteq> [] \<Longrightarrow> contains sep s \<Longrightarrow> split sep s ! 1 = before_first sep (after_first sep s)"
  unfolding split_def by (rule second_split_from)

lemma length_split_from: "sep \<noteq> [] \<Longrightarrow> contains sep s \<Longrightarrow> 2 \<le> length (split_from sep acc s)"
proof (induction sep acc s rule: split_from.induct)
  case (1 sep acc)
  then show ?case by simp
next
  case (2 sep acc c cs)
  then show ?case
    using split_from_nonempty[of sep "[]" "drop (length sep) (c # cs)"]
    by (cases "prefix sep (c # cs)") (auto simp: Suc_le_eq)
qed

lemma split_once_from_eq:
  "sep \<noteq> [] \<Longrightarrow> split_once_from sep acc s =
     (if contains sep s then [rev acc @ before_first sep s, after_first sep s] else [rev acc @ s])"
  by (induction sep acc s rule: split_once_from.induct) auto

lemma split_once_eq:
  "sep \<noteq> [] \<Longrightarrow> split_once sep s =
     (if contains sep s then [before_first sep s, after_first sep s] else [s])"
  by (simp add: split_once_def split_once_from_eq)

lemma takeWhile_neq_absent:
  "c \<notin> set xs \<Longrightarrow> takeWhile (\<lambda>x. x \<noteq> c) (xs @ ys) = xs @ takeWhile (\<lambda>x. x \<noteq> c) ys"
  by (rule takeWhile_append2) auto

lemma takeWhile_neq_present:
  "c \<in> set xs \<Longrightarrow> takeWhile (\<lambda>x. x \<noteq> c) (xs @ ys) = takeWhile (\<lambda>x. x \<noteq> c) xs"
  by (rule takeWhile_append1) auto

lemma last_split_from_char:
  "last (split_from [c] acc s) = (if c \<in> set s then after_last_char c s else rev acc @ s)"
proof (induction s arbitrary: acc)
  case Nil
  then show ?case by simp
next
  case (Cons x xs)
  show ?case
  proof (cases "x = c")
    case True
    then show ?thesis
      using Cons.IH[of "[]"]
      by (simp add: split_from_nonempty after_last_char_def takeWhile_neq_absent takeWhile_neq_present)
  next
    case False
    then show ?thesis
      using Cons.IH[of "x # acc"]
      by (simp add: after_last_char_def takeWhile_neq_present)
  qed
qed

lemma last_split_char:
  "last (split [c] s) = (if c \<in> set s then after_last_char c s else s)"
  by (simp add: split_def last_split_from_char)

lemma contains_char: "contains [c] s = (c \<in> set s)"
  by (induction s) auto



section \<open>Unfolding the model on concrete messages\<close>

lemmas eval_defs =
  generate_stream_def process_token_def text_token_def blank_token_def tool_call_token_def
  tool_message_def blocks_token_def blank_block_def blank_output_def code_block_def
  png_files_output_def jpeg_uri_output_def
  is_tool_message_def has_calls_def when_active_def when_idle_def initial_state_def skip_def
  seq_def process_content_def is_empty_content_def metadata_images_def metadata_outputs_def
  metadata_output_def file_image_def string_content_def tool_result_def announce_tools_def
  call_name_def process_block_def process_dict_block_def process_obj_block_def text_chunk_def
  code_interpreter_call_def code_interpreter_output_def image_block_def data_uri_image_def
  yield_chunk_def yield_image_def set_status_def clear_status_def
  example_loads_def raises_def decodes_quietly_def dict_get_def get_or_def split_def
  split_once_def long_integer_text_def
  get_tool_status_def status_rule_def db_terms_def lower_def lower_char_def
  msg_searching_products_def msg_querying_database_def msg_getting_time_def
  msg_generating_image_def msg_searching_web_def msg_running_code_def msg_using_def


section \<open>Lower-casing twice changes nothing\<close>

lemma lower_char_idem: "lower_char (lower_char c) = lower_char c"
  by (simp add: lower_char_def)

lemma lower_idem: "lower (lower s) = lower s"
  by (simp add: lower_def lower_char_idem)

lemma lower_nil: "lower s = [] \<longleftrightarrow> s = []"
  by (simp add: lower_def)

lemma first_status_lower: "first_status (map lower names) = first_status names"
  by (induction names) (simp_all add: lower_idem lower_nil split: option.split)

section \<open>Parts of the body that write no chunk\<close>















section \<open>The extractor computes the records stated on the text\<close>

lemma data_uri_image_eq:
  "data_uri_image url st =
     (map ImageOut (data_uri_record url), st\<lparr>images := images st @ data_uri_record url\<rparr>)"
proof (cases "contains '','' url")
  case True
  then have parts: "split_once '','' url = [before_first '','' url, after_first '','' url]"
    by (simp add: split_once_eq)
  show ?thesis
  proof (cases "contains ''image/'' (before_first '','' url)")
    case c: True
    have s2: "split ''image/'' (before_first '','' url) ! 1 =
        before_first ''image/'' (after_first ''image/'' (before_first '','' url))"
      by (rule second_split[OF _ c]) simp
    have "hd (split '';'' (split ''image/'' (before_first '','' url) ! 1)) =
        before_first '';'' (before_first ''image/'' (after_first ''image/'' (before_first '','' url)))"
      unfolding s2 by (rule hd_split) simp
    with True c parts show ?thesis
      by (simp add: data_uri_image_def data_uri_record_def yield_image_def)
  next
    case False
    with True parts show ?thesis
      by (simp add: data_uri_image_def data_uri_record_def yield_image_def)
  qed
next
  case False
  then have "split_once '','' url = [url]" by (simp add: split_once_eq)
  with False show ?thesis
    by (simp add: data_uri_image_def data_uri_record_def skip_def)
qed

lemma code_interpreter_output_eq:
  "code_interpreter_output entry st =
     (map ImageOut (block_output_images entry),
      st\<lparr>images := images st @ block_output_images entry\<rparr>)"
  by (cases entry)
    (simp_all add: code_interpreter_output_def block_output_images_def data_uri_image_eq
      yield_image_def skip_def)

lemma foreach_images:
  assumes "\<And>x st. body x st = (map ImageOut (f x), st\<lparr>images := images st @ f x\<rparr>)"
  shows "foreach body xs st =
     (map ImageOut (concat (map f xs)), st\<lparr>images := images st @ concat (map f xs)\<rparr>)"
  by (induction xs arbitrary: st) (simp_all add: skip_def seq_def assms)

lemma after_last_char_absent:
  assumes "c \<notin> set s"
  shows "after_last_char c s = s"
proof -
  have "takeWhile (\<lambda>x. x \<noteq> c) (rev s) = rev s"
    by (rule takeWhile_eq_all_conv[THEN iffD2]) (use assms in auto)
  then show ?thesis
    unfolding after_last_char_def by (simp only: rev_rev_ident)
qed

lemma last_split_slash: "last (split ''/'' s) = after_last_char CHR ''/'' s"
  by (simp add: last_split_char after_last_char_absent)

lemma file_image_eq:
  "file_image file st =
     (map ImageOut (file_images [file]), st\<lparr>images := images st @ file_images [file]\<rparr>)"
  by (cases "mime_type file")
    (simp_all add: file_image_def file_images_def yield_image_def skip_def get_or_def
      last_split_slash)

lemma file_images_concat: "concat (map (\<lambda>file. file_images [file]) files) = file_images files"
  by (induction files) (simp_all add: file_images_def)

lemma metadata_files_eq:
  "o_type d = Some ''files'' \<Longrightarrow>
     metadata_output (DictOutput d) st =
       (map ImageOut (file_images (get_or (o_files d) [])),
        st\<lparr>images := images st @ file_images (get_or (o_files d) [])\<rparr>)"
  using foreach_images[of file_image "\<lambda>file. file_images [file]" "get_or (o_files d) []" st]
  by (simp add: metadata_output_def file_image_eq file_images_concat)

lemma code_interpreter_call_eq:
  "code_interpreter_call outputs st =
     ((if outputs = [] then (if tool_in_progress st then [] else [Status msg_running_code])
       else (if tool_in_progress st then [Status []] else []))
      @ map ImageOut (concat (map block_output_images outputs)),
      st\<lparr>images := images st @ concat (map block_output_images outputs),
         tool_in_progress := (outputs = [])\<rparr>)"
  using foreach_images[of code_interpreter_output block_output_images outputs]
  by (simp add: code_interpreter_call_def seq_def when_idle_def when_active_def set_status_def
      clear_status_def skip_def code_interpreter_output_eq)



section \<open>Further facts used by the claims\<close>

lemma long_digits_head: "long_digits = CHR ''1'' # replicate 4300 CHR ''1''"
proof -
  have "(4301::nat) = Suc 4300" by simp
  then show ?thesis by (simp only: long_digits_def replicate_Suc)
qed

lemma example_loads_long: "example_loads long_integer_text = Raised ''ValueError''"
  by (simp add: example_loads_def long_integer_text_def long_digits_head)

lemma process_token_blocks:
  assumes "\<not> is_tool_message tok" and "\<not> has_calls (tool_calls tok)"
    and "\<not> has_calls (additional_kwargs tok)"
    and "content tok = Some (Blocks bs)" and "bs \<noteq> []"
  shows "process_token loads tok st =
        (seq (when_active clear_status)
           (seq (foreach metadata_output
                   (case response_metadata tok of None \<Rightarrow> [] | Some rm \<Rightarrow> metadata_outputs rm))
                (foreach process_block bs)) st, None)"
  using assms
  by (simp add: process_token_def process_content_def is_empty_content_def seq_def
      metadata_images_def split: prod.split option.split)

lemma block_output_images_data_uri:
  assumes "o_type d = Some ''image''" and "o_url d = Some (''data:image/'' @ rest)"
  shows "block_output_images (DictOutput d) =
     (if CHR '','' \<in> set rest
      then [\<lparr>img_base64 = JStr (after_first '','' rest),
             img_format = JStr (before_first '';''
                                 (before_first ''image/'' (before_first '','' rest)))\<rparr>]
      else [])"
  using assms
  by (simp add: block_output_images_def data_uri_record_def get_or_def contains_char)



section \<open>The claims\<close>

lemma example_stream:
  \<open>generate_stream example_loads
         [text_token ''hello'', text_token ''{"type": "image", "base64": "QUJD", "format": "jpeg"}'',
          text_token '' world''] None =
     ([Chunk ''hello'', ImageOut \<lparr>img_base64 = JStr ''QUJD'', img_format = JStr ''jpeg''\<rparr>,
       Chunk '' world'',
       Done ''hello world'' ''assistant'' [\<lparr>img_base64 = JStr ''QUJD'', img_format = JStr ''jpeg''\<rparr>]],
      None)\<close>
  by (simp add: eval_defs)




text \<open>
  C2. In every run that ends without an exception, the final line's \<open>message\<close> is the
  concatenation, in order, of the texts of all chunk lines written before it, and its
  \<open>images\<close> the list, in order, of the records of all image lines written before it (its
  \<open>role\<close> is \<open>assistant\<close>).
\<close>

theorem done_carries_chunks_and_images:
  assumes "snd (generate_stream loads toks None) = None"
  shows "last (fst (generate_stream loads toks None)) =
           Done (concat (chunk_texts (butlast (fst (generate_stream loads toks None)))))
                ''assistant''
                (event_images (butlast (fst (generate_stream loads toks None))))"
proof -
  from generate_stream_complete[OF assms] obtain body where
    "generate_stream loads toks None =
       (body @ [Done (concat (chunk_texts body)) ''assistant'' (event_images body)], None)"
    by blast
  then show ?thesis by simp
qed

theorem done_carries_chunks_and_images_witness:
  \<open>snd (generate_stream example_loads
         [text_token ''hello'', text_token ''{"type": "image", "base64": "QUJD", "format": "jpeg"}'',
          text_token '' world''] None) = None
    \<and> last (fst (generate_stream example_loads
         [text_token ''hello'', text_token ''{"type": "image", "base64": "QUJD", "format": "jpeg"}'',
          text_token '' world''] None)) =
       Done (concat (chunk_texts (butlast (fst (generate_stream example_loads
         [text_token ''hello'', text_token ''{"type": "image", "base64": "QUJD", "format": "jpeg"}'',
          text_token '' world''] None)))))
         ''assistant''
         (event_images (butlast (fst (generate_stream example_loads
         [text_token ''hello'', text_token ''{"type": "image", "base64": "QUJD", "format": "jpeg"}'',
          text_token '' world''] None))))\<close>
proof -
  have h: \<open>snd (generate_stream example_loads
         [text_token ''hello'', text_token ''{"type": "image", "base64": "QUJD", "format": "jpeg"}'',
          text_token '' world''] None) = None\<close>
    by (simp add: example_stream)
  from done_carries_chunks_and_images[OF h] h show ?thesis by blast
qed

text \<open>
  C3. In everything the generator writes, whether it ends, the agent's stream raises or the
  decoder raises, the status lines alternate: a status is announced only when none is showing,
  and a clear is written only when one is showing.
\<close>

theorem status_lines_alternate:
  "status_trace False (fst (generate_stream loads toks failure)) \<noteq> None"
proof -
  from generate_stream_events[of loads toks failure] obtain body st where
    t: "tracks initial_state body st"
    and o: "fst (generate_stream loads toks failure) = body
        \<or> fst (generate_stream loads toks failure) = body @ [Done (full_response st) ''assistant'' (images st)]"
    by blast
  from tracks_initial[OF t] have "status_trace False body = Some (tool_in_progress st)" by simp
  with o show ?thesis by (auto simp: status_trace_append)
qed

theorem status_lines_alternate_witness:
  "status_trace False (fst (generate_stream example_loads
     [tool_call_token ''execute_sales_query'', tool_call_token ''web_search'', text_token ''hi'']
     None)) \<noteq> None"
  using status_lines_alternate[of example_loads
     "[tool_call_token ''execute_sales_query'', tool_call_token ''web_search'', text_token ''hi'']" None]
  by simp

text \<open>
  C4, where it fails. A \<open>code_interpreter_call\<close> block whose only output is of the files
  form, holding one PNG file, yields no image line: the whole response is the final line
  alone.
\<close>

theorem files_output_in_block_counterexample:
  "generate_stream example_loads [blocks_token [code_block [png_files_output]]] None =
     ([Done [] ''assistant'' []], None)"
  by (simp add: eval_defs)

text \<open>
  C4, as amended. A message that is neither a tool result nor announces tool calls and whose
  content is a non-empty list of blocks clears a showing status, runs the extractor of the
  response metadata over each of its outputs, and then processes each block. A
  \<open>code_interpreter_call\<close> block with no outputs announces the running-code status unless a
  status is showing, and a status is showing afterwards; with outputs, it clears the status
  first if one is showing, and then writes one image line for every record found in its
  outputs. An output that is not a \<open>dict\<close> or not of type \<open>image\<close> (the files form
  included) holds none. An output of type \<open>image\<close> whose URL starts with \<open>data:image/\<close>
  holds one record if the URL has a comma (the payload after the first comma, the format cut
  from what follows \<open>data:image/\<close> at the next \<open>,\<close>, \<open>image/\<close> or \<open>;\<close>) and none
  otherwise, whatever its other fields. An output of type \<open>image\<close> with another URL or none
  holds one record if its direct payload (\<open>base64\<close>, else \<open>data\<close>) is not empty. In the
  response metadata, an output of the files form yields one image per file whose MIME type
  contains \<open>image\<close>, the format being the text after the last slash.
\<close>

theorem code_interpreter_call_block:
  "(\<not> is_tool_message tok \<and> \<not> has_calls (tool_calls tok) \<and> \<not> has_calls (additional_kwargs tok)
      \<and> content tok = Some (Blocks bs) \<and> bs \<noteq> [] \<longrightarrow>
      process_token loads tok st =
        (seq (when_active clear_status)
           (seq (foreach metadata_output
                   (case response_metadata tok of None \<Rightarrow> [] | Some rm \<Rightarrow> metadata_outputs rm))
                (foreach process_block bs)) st, None))
   \<and> (b_type blk = Some ''code_interpreter_call'' \<longrightarrow>
      process_block (DictBlock blk) st1 =
        ((if get_or (b_outputs blk) [] = []
          then (if tool_in_progress st1 then []
                else [Status ([CHR 0xF0, CHR 0x9F, CHR 0x92, CHR 0xBB] @ '' Running code...'')])
          else (if tool_in_progress st1 then [Status []] else []))
         @ map ImageOut (concat (map block_output_images (get_or (b_outputs blk) []))),
         st1\<lparr>images := images st1 @ concat (map block_output_images (get_or (b_outputs blk) [])),
            tool_in_progress := (get_or (b_outputs blk) [] = [])\<rparr>))
   \<and> block_output_images OtherOutput = []
   \<and> (o_type d1 \<noteq> Some ''image'' \<longrightarrow> block_output_images (DictOutput d1) = [])
   \<and> (o_type d2 = Some ''image'' \<and> o_url d2 = Some (''data:image/'' @ rest) \<longrightarrow>
        block_output_images (DictOutput d2) =
          (if CHR '','' \<in> set rest
           then [\<lparr>img_base64 = JStr (after_first '','' rest),
                  img_format = JStr (before_first '';''
                                      (before_first ''image/'' (before_first '','' rest)))\<rparr>]
           else []))
   \<and> (o_type d3 = Some ''image'' \<and> \<not> prefix ''data:image/'' (get_or (o_url d3) []) \<longrightarrow>
        block_output_images (DictOutput d3) =
          (if get_or (o_base64 d3) (get_or (o_data d3) []) = [] then []
           else [\<lparr>img_base64 = JStr (get_or (o_base64 d3) (get_or (o_data d3) [])),
                  img_format = JStr (get_or (o_format d3) ''png'')\<rparr>]))
   \<and> (o_type d4 = Some ''files'' \<longrightarrow>
        metadata_output (DictOutput d4) st2 =
          (map ImageOut (file_images (get_or (o_files d4) [])),
           st2\<lparr>images := images st2 @ file_images (get_or (o_files d4) [])\<rparr>))"
proof -
  have 1: "\<not> is_tool_message tok \<and> \<not> has_calls (tool_calls tok) \<and> \<not> has_calls (additional_kwargs tok)
      \<and> content tok = Some (Blocks bs) \<and> bs \<noteq> [] \<longrightarrow>
      process_token loads tok st =
        (seq (when_active clear_status)
           (seq (foreach metadata_output
                   (case response_metadata tok of None \<Rightarrow> [] | Some rm \<Rightarrow> metadata_outputs rm))
                (foreach process_block bs)) st, None)"
    using process_token_blocks by blast
  have 2: "b_type blk = Some ''code_interpreter_call'' \<longrightarrow>
      process_block (DictBlock blk) st1 =
        ((if get_or (b_outputs blk) [] = []
          then (if tool_in_progress st1 then []
                else [Status ([CHR 0xF0, CHR 0x9F, CHR 0x92, CHR 0xBB] @ '' Running code...'')])
          else (if tool_in_progress st1 then [Status []] else []))
         @ map ImageOut (concat (map block_output_images (get_or (b_outputs blk) []))),
         st1\<lparr>images := images st1 @ concat (map block_output_images (get_or (b_outputs blk) [])),
            tool_in_progress := (get_or (b_outputs blk) [] = [])\<rparr>)"
    by (simp add: process_block_def process_dict_block_def code_interpreter_call_eq
        msg_running_code_def)
  have 3: "block_output_images OtherOutput = []"
    by (simp add: block_output_images_def)
  have 4: "o_type d1 \<noteq> Some ''image'' \<longrightarrow> block_output_images (DictOutput d1) = []"
    by (simp add: block_output_images_def)
  have 5: "o_type d2 = Some ''image'' \<and> o_url d2 = Some (''data:image/'' @ rest) \<longrightarrow>
        block_output_images (DictOutput d2) =
          (if CHR '','' \<in> set rest
           then [\<lparr>img_base64 = JStr (after_first '','' rest),
                  img_format = JStr (before_first '';''
                                      (before_first ''image/'' (before_first '','' rest)))\<rparr>]
           else [])"
    using block_output_images_data_uri by blast
  have 6: "o_type d3 = Some ''image'' \<and> \<not> prefix ''data:image/'' (get_or (o_url d3) []) \<longrightarrow>
        block_output_images (DictOutput d3) =
          (if get_or (o_base64 d3) (get_or (o_data d3) []) = [] then []
           else [\<lparr>img_base64 = JStr (get_or (o_base64 d3) (get_or (o_data d3) [])),
                  img_format = JStr (get_or (o_format d3) ''png'')\<rparr>])"
    by (simp add: block_output_images_def)
  have 7: "o_type d4 = Some ''files'' \<longrightarrow>
        metadata_output (DictOutput d4) st2 =
          (map ImageOut (file_images (get_or (o_files d4) [])),
           st2\<lparr>images := images st2 @ file_images (get_or (o_files d4) [])\<rparr>)"
    by (simp add: metadata_files_eq)
  from 1 2 3 4 5 6 7 show ?thesis by blast
qed

theorem code_interpreter_call_block_witness:
  "\<not> is_tool_message code_metadata_token \<and> \<not> has_calls (tool_calls code_metadata_token)
   \<and> \<not> has_calls (additional_kwargs code_metadata_token)
   \<and> content code_metadata_token =
       Some (Blocks [code_block [jpeg_uri_output, no_comma_uri_output, direct_output, png_files_output]])
   \<and> process_token example_loads code_metadata_token initial_state =
       (([ImageOut \<lparr>img_base64 = JStr ''QUJD'', img_format = JStr ''png''\<rparr>,
          ImageOut \<lparr>img_base64 = JStr ''QUJD'', img_format = JStr ''jpeg''\<rparr>,
          ImageOut \<lparr>img_base64 = JStr ''QQ=='', img_format = JStr ''png''\<rparr>],
         \<lparr>full_response = [],
           images = [\<lparr>img_base64 = JStr ''QUJD'', img_format = JStr ''png''\<rparr>,
                     \<lparr>img_base64 = JStr ''QUJD'', img_format = JStr ''jpeg''\<rparr>,
                     \<lparr>img_base64 = JStr ''QQ=='', img_format = JStr ''png''\<rparr>],
           tool_in_progress = False\<rparr>), None)
   \<and> b_type (blank_block\<lparr>b_type := Some ''code_interpreter_call'',
         b_outputs := Some [jpeg_uri_output, no_comma_uri_output, direct_output, png_files_output]\<rparr>)
       = Some ''code_interpreter_call''
   \<and> process_block
        (code_block [jpeg_uri_output, no_comma_uri_output, direct_output, png_files_output])
        (initial_state\<lparr>tool_in_progress := True\<rparr>) =
       ([Status [],
         ImageOut \<lparr>img_base64 = JStr ''QUJD'', img_format = JStr ''jpeg''\<rparr>,
         ImageOut \<lparr>img_base64 = JStr ''QQ=='', img_format = JStr ''png''\<rparr>],
        \<lparr>full_response = [],
          images = [\<lparr>img_base64 = JStr ''QUJD'', img_format = JStr ''jpeg''\<rparr>,
                    \<lparr>img_base64 = JStr ''QQ=='', img_format = JStr ''png''\<rparr>],
          tool_in_progress = False\<rparr>)
   \<and> block_output_images png_files_output = []
   \<and> block_output_images no_comma_uri_output = []
   \<and> block_output_images direct_output =
       [\<lparr>img_base64 = JStr ''QQ=='', img_format = JStr ''png''\<rparr>]
   \<and> metadata_output png_files_output initial_state =
       ([ImageOut \<lparr>img_base64 = JStr ''QUJD'', img_format = JStr ''png''\<rparr>],
        \<lparr>full_response = [],
          images = [\<lparr>img_base64 = JStr ''QUJD'', img_format = JStr ''png''\<rparr>],
          tool_in_progress = False\<rparr>)"
proof -
  let ?outs = "[jpeg_uri_output, no_comma_uri_output, direct_output, png_files_output]"
  let ?blk = "blank_block\<lparr>b_type := Some ''code_interpreter_call'', b_outputs := Some ?outs\<rparr>"
  let ?files = "blank_output\<lparr>o_type := Some ''files'',
        o_files := Some [\<lparr>file_data = Some ''QUJD'', mime_type = Some ''image/png''\<rparr>]\<rparr>"
  let ?nocomma = "blank_output\<lparr>o_type := Some ''image'', o_url := Some ''data:image/png;base64'',
        o_base64 := Some ''QQ==''\<rparr>"
  let ?direct = "blank_output\<lparr>o_type := Some ''image'', o_base64 := Some ''QQ==''\<rparr>"
  let ?active = "initial_state\<lparr>tool_in_progress := True\<rparr>"
  note inst = code_interpreter_call_block[where tok = code_metadata_token and bs = "[code_block ?outs]"
      and loads = example_loads and st = initial_state and blk = ?blk and ?st1.0 = ?active
      and ?d1.0 = ?files and ?d2.0 = ?nocomma and rest = "''png;base64''" and ?d3.0 = ?direct
      and ?d4.0 = ?files and ?st2.0 = initial_state]
  have hA: "\<not> is_tool_message code_metadata_token \<and> \<not> has_calls (tool_calls code_metadata_token)
      \<and> \<not> has_calls (additional_kwargs code_metadata_token)
      \<and> content code_metadata_token = Some (Blocks [code_block ?outs]) \<and> [code_block ?outs] \<noteq> []"
    by (simp add: code_metadata_token_def blank_token_def is_tool_message_def has_calls_def)
  have hB: "b_type ?blk = Some ''code_interpreter_call''" by (simp add: blank_block_def)
  have h1: "o_type ?files \<noteq> Some ''image''" by (simp add: blank_output_def)
  have h2: "o_type ?nocomma = Some ''image'' \<and> o_url ?nocomma = Some (''data:image/'' @ ''png;base64'')"
    by (simp add: blank_output_def)
  have h3: "o_type ?direct = Some ''image'' \<and> \<not> prefix ''data:image/'' (get_or (o_url ?direct) [])"
    by (simp add: blank_output_def get_or_def)
  have h4: "o_type ?files = Some ''files''" by (simp add: blank_output_def)
  from inst hA have eA: "process_token example_loads code_metadata_token initial_state =
        (seq (when_active clear_status)
           (seq (foreach metadata_output
                   (case response_metadata code_metadata_token of None \<Rightarrow> []
                    | Some rm \<Rightarrow> metadata_outputs rm))
                (foreach process_block [code_block ?outs])) initial_state, None)"
    by blast
  have cA: "process_token example_loads code_metadata_token initial_state =
       (([ImageOut \<lparr>img_base64 = JStr ''QUJD'', img_format = JStr ''png''\<rparr>,
          ImageOut \<lparr>img_base64 = JStr ''QUJD'', img_format = JStr ''jpeg''\<rparr>,
          ImageOut \<lparr>img_base64 = JStr ''QQ=='', img_format = JStr ''png''\<rparr>],
         \<lparr>full_response = [],
           images = [\<lparr>img_base64 = JStr ''QUJD'', img_format = JStr ''png''\<rparr>,
                     \<lparr>img_base64 = JStr ''QUJD'', img_format = JStr ''jpeg''\<rparr>,
                     \<lparr>img_base64 = JStr ''QQ=='', img_format = JStr ''png''\<rparr>],
           tool_in_progress = False\<rparr>), None)"
    unfolding eA
    by (simp add: code_metadata_token_def no_comma_uri_output_def direct_output_def eval_defs)
  from inst h1 have c1: "block_output_images (DictOutput ?files) = []" by blast
  from inst h2 have "block_output_images (DictOutput ?nocomma) =
          (if CHR '','' \<in> set ''png;base64''
           then [\<lparr>img_base64 = JStr (after_first '','' ''png;base64''),
                  img_format = JStr (before_first '';''
                     (before_first ''image/'' (before_first '','' ''png;base64'')))\<rparr>]
           else [])" by blast
  then have c2: "block_output_images (DictOutput ?nocomma) = []" by simp
  from inst h3 have "block_output_images (DictOutput ?direct) =
          (if get_or (o_base64 ?direct) (get_or (o_data ?direct) []) = [] then []
           else [\<lparr>img_base64 = JStr (get_or (o_base64 ?direct) (get_or (o_data ?direct) [])),
                  img_format = JStr (get_or (o_format ?direct) ''png'')\<rparr>])" by blast
  then have c3: "block_output_images (DictOutput ?direct) =
       [\<lparr>img_base64 = JStr ''QQ=='', img_format = JStr ''png''\<rparr>]"
    by (simp add: blank_output_def get_or_def)
  have imgs: "concat (map block_output_images (get_or (b_outputs ?blk) [])) =
      [\<lparr>img_base64 = JStr ''QUJD'', img_format = JStr ''jpeg''\<rparr>,
       \<lparr>img_base64 = JStr ''QQ=='', img_format = JStr ''png''\<rparr>]"
    using c1 c2 c3
    by (simp add: blank_block_def get_or_def jpeg_uri_output_def png_files_output_def
        no_comma_uri_output_def direct_output_def blank_output_def block_output_images_def
        data_uri_record_def)
  from inst hB have "process_block (DictBlock ?blk) ?active =
        ((if get_or (b_outputs ?blk) [] = []
          then (if tool_in_progress ?active then []
                else [Status ([CHR 0xF0, CHR 0x9F, CHR 0x92, CHR 0xBB] @ '' Running code...'')])
          else (if tool_in_progress ?active then [Status []] else []))
         @ map ImageOut (concat (map block_output_images (get_or (b_outputs ?blk) []))),
         ?active\<lparr>images := images ?active @ concat (map block_output_images (get_or (b_outputs ?blk) [])),
            tool_in_progress := (get_or (b_outputs ?blk) [] = [])\<rparr>)"
    by blast
  then have cB: "process_block (code_block ?outs) ?active =
       ([Status [],
         ImageOut \<lparr>img_base64 = JStr ''QUJD'', img_format = JStr ''jpeg''\<rparr>,
         ImageOut \<lparr>img_base64 = JStr ''QQ=='', img_format = JStr ''png''\<rparr>],
        \<lparr>full_response = [],
          images = [\<lparr>img_base64 = JStr ''QUJD'', img_format = JStr ''jpeg''\<rparr>,
                    \<lparr>img_base64 = JStr ''QQ=='', img_format = JStr ''png''\<rparr>],
          tool_in_progress = False\<rparr>)"
    unfolding imgs by (simp add: code_block_def initial_state_def blank_block_def get_or_def)
  from inst h4 have "metadata_output (DictOutput ?files) initial_state =
          (map ImageOut (file_images (get_or (o_files ?files) [])),
           initial_state\<lparr>images := images initial_state @ file_images (get_or (o_files ?files) [])\<rparr>)"
    by blast
  then have c4: "metadata_output png_files_output initial_state =
       ([ImageOut \<lparr>img_base64 = JStr ''QUJD'', img_format = JStr ''png''\<rparr>],
        \<lparr>full_response = [],
          images = [\<lparr>img_base64 = JStr ''QUJD'', img_format = JStr ''png''\<rparr>],
          tool_in_progress = False\<rparr>)"
    by (simp add: png_files_output_def blank_output_def get_or_def file_images_def
        after_last_char_def initial_state_def)
  from hA cA hB cB c1 c2 c3 c4 show ?thesis
    by (simp add: png_files_output_def no_comma_uri_output_def direct_output_def)
qed

text \<open>
  C5, where the code departs from it. After a tool call was announced, a message with empty
  content and no tool calls clears the status, although it carries no content.
\<close>

theorem status_cleared_on_empty_content:
  "generate_stream example_loads [tool_call_token ''execute_sales_query'', text_token []] None =
     ([Status ([CHR 0xF0, CHR 0x9F, CHR 0x94, CHR 0x8D] @ '' Querying database...''), Status [],
       Done [] ''assistant'' []], None)"
  by (simp add: eval_defs)




lemma image_string_event_example:
  \<open>process_token example_loads
      (text_token ''{"type": "image", "base64": "QUJD", "format": "jpeg"}'') initial_state =
    (([ImageOut \<lparr>img_base64 = JStr ''QUJD'', img_format = JStr ''jpeg''\<rparr>],
      \<lparr>full_response = [],
        images = [\<lparr>img_base64 = JStr ''QUJD'', img_format = JStr ''jpeg''\<rparr>],
        tool_in_progress = False\<rparr>), None)\<close>
  by (simp add: eval_defs)

text \<open>
  C7, where it fails. The label for \<open>execute_sales_query\<close> is not the bare text
  \<open>Querying database\<close>: the code returns it behind an emoji and followed by an ellipsis.
\<close>

theorem classifier_plain_label_counterexample:
  "get_tool_status [''execute_sales_query''] \<noteq> ''Querying database''"
  by (simp add: eval_defs)

text \<open>
  C7, as amended. The classifier returns the decorated labels: a magnifying glass and
  \<open>Querying database...\<close> for \<open>execute_sales_query\<close>, a palette and
  \<open>Generating image...\<close> for \<open>generate_image\<close>, a gear and \<open>Using unknown_tool_x...\<close>
  for \<open>unknown_tool_x\<close>, a gear and \<open>Using tool...\<close> for the empty list. The label
  depends on the names only through their lower-cased forms, except that the default quotes
  the first name as it was given.
\<close>

theorem classifier_labels:
  "get_tool_status [''execute_sales_query'']
     = [CHR 0xF0, CHR 0x9F, CHR 0x94, CHR 0x8D] @ '' Querying database...''
   \<and> get_tool_status [''generate_image'']
     = [CHR 0xF0, CHR 0x9F, CHR 0x8E, CHR 0xA8] @ '' Generating image...''
   \<and> get_tool_status [''unknown_tool_x'']
     = [CHR 0xE2, CHR 0x9A, CHR 0x99, CHR 0xEF, CHR 0xB8, CHR 0x8F] @ '' Using unknown_tool_x...''
   \<and> get_tool_status []
     = [CHR 0xE2, CHR 0x9A, CHR 0x99, CHR 0xEF, CHR 0xB8, CHR 0x8F] @ '' Using tool...''
   \<and> get_tool_status names =
       (case first_status (map lower names) of
          Some msg \<Rightarrow> msg
        | None \<Rightarrow> [CHR 0xE2, CHR 0x9A, CHR 0x99, CHR 0xEF, CHR 0xB8, CHR 0x8F] @ '' Using ''
                   @ (if names = [] then ''tool'' else hd names) @ ''...'')"
proof -
  have 1: "get_tool_status [''execute_sales_query'']
     = [CHR 0xF0, CHR 0x9F, CHR 0x94, CHR 0x8D] @ '' Querying database...''"
    by (simp add: eval_defs)
  have 2: "get_tool_status [''generate_image'']
     = [CHR 0xF0, CHR 0x9F, CHR 0x8E, CHR 0xA8] @ '' Generating image...''"
    by (simp add: eval_defs)
  have 3: "get_tool_status [''unknown_tool_x'']
     = [CHR 0xE2, CHR 0x9A, CHR 0x99, CHR 0xEF, CHR 0xB8, CHR 0x8F] @ '' Using unknown_tool_x...''"
    by (simp add: eval_defs)
  have 4: "get_tool_status []
     = [CHR 0xE2, CHR 0x9A, CHR 0x99, CHR 0xEF, CHR 0xB8, CHR 0x8F] @ '' Using tool...''"
    by (simp add: eval_defs)
  have 5: "get_tool_status names =
       (case first_status (map lower names) of
          Some msg \<Rightarrow> msg
        | None \<Rightarrow> [CHR 0xE2, CHR 0x9A, CHR 0x99, CHR 0xEF, CHR 0xB8, CHR 0x8F] @ '' Using ''
                   @ (if names = [] then ''tool'' else hd names) @ ''...'')"
    by (simp add: get_tool_status_def first_status_lower msg_using_def split: option.split)
  from 1 2 3 4 5 show ?thesis by blast
qed

theorem classifier_labels_witness:
  "get_tool_status [''Unknown_Tool_X'', ''Execute_SALES_Query'']
     = [CHR 0xF0, CHR 0x9F, CHR 0x94, CHR 0x8D] @ '' Querying database...''
   \<and> get_tool_status [''Unknown_Tool_X'']
     = [CHR 0xE2, CHR 0x9A, CHR 0x99, CHR 0xEF, CHR 0xB8, CHR 0x8F] @ '' Using Unknown_Tool_X...''"
  using classifier_labels[of "[''Unknown_Tool_X'', ''Execute_SALES_Query'']"]
    classifier_labels[of "[''Unknown_Tool_X'']"]
  by (simp add: status_rule_def db_terms_def lower_def lower_char_def
      msg_querying_database_def)

text \<open>
  C8, where it fails. When the agent's stream raises after one chunk was written, the
  response consists of that chunk alone and the exception leaves the generator: no terminal
  line of any kind is written.
\<close>

theorem upstream_failure_counterexample:
  "generate_stream example_loads [text_token ''hello''] (Some ''boom'') =
     ([Chunk ''hello''], Some (UpstreamError ''boom''))"
  by (simp add: eval_defs)

text \<open>
  C8, as amended. When the agent's stream raises after delivering messages that the generator
  has processed without raising, the lines written are exactly those the messages produce,
  without the final line, and the exception leaves the generator.
\<close>

theorem upstream_failure_truncates:
  assumes "snd (generate_stream loads toks None) = None"
  shows "generate_stream loads toks (Some msg) =
           (butlast (fst (generate_stream loads toks None)), Some (UpstreamError msg))
    \<and> filter is_done (fst (generate_stream loads toks (Some msg))) = []"
proof -
  from generate_stream_complete[OF assms, of msg] obtain body where
    "generate_stream loads toks None =
       (body @ [Done (concat (chunk_texts body)) ''assistant'' (event_images body)], None)"
    and "generate_stream loads toks (Some msg) = (body, Some (UpstreamError msg))"
    and "filter is_done body = []" by blast
  then show ?thesis by simp
qed

theorem upstream_failure_truncates_witness:
  "snd (generate_stream example_loads [text_token ''hello''] None) = None
    \<and> generate_stream example_loads [text_token ''hello''] (Some ''boom'') =
        (butlast (fst (generate_stream example_loads [text_token ''hello''] None)),
         Some (UpstreamError ''boom''))
    \<and> filter is_done (fst (generate_stream example_loads [text_token ''hello''] (Some ''boom''))) = []"
proof -
  have h: "snd (generate_stream example_loads [text_token ''hello''] None) = None"
    by (simp add: eval_defs)
  from upstream_failure_truncates[OF h, of "''boom''"] h show ?thesis by blast
qed



lemma tool_result_image_example:
  \<open>process_token example_loads
        (tool_message ''{"type": "image", "base64": "QUJD", "format": "jpeg"}'') initial_state =
       (([ImageOut \<lparr>img_base64 = JStr ''QUJD'', img_format = JStr ''jpeg''\<rparr>],
         initial_state\<lparr>images := [\<lparr>img_base64 = JStr ''QUJD'', img_format = JStr ''jpeg''\<rparr>]\<rparr>), None)\<close>
  by (simp add: eval_defs)

text \<open>
  C10. A message that is neither a tool result nor announces tool calls and whose content is
  missing or empty writes at most the clearing of the status: no chunk and no image,
  whatever its response metadata holds.
\<close>

theorem empty_content_yields_nothing:
  assumes "\<not> is_tool_message tok" and "\<not> has_calls (tool_calls tok)"
    and "\<not> has_calls (additional_kwargs tok)"
    and "content tok = None \<or> content tok = Some (Text []) \<or> content tok = Some (Blocks [])"
  shows "process_token loads tok st = (when_active clear_status st, None)
    \<and> chunk_texts (fst (fst (process_token loads tok st))) = []
    \<and> event_images (fst (fst (process_token loads tok st))) = []
    \<and> full_response (snd (fst (process_token loads tok st))) = full_response st
    \<and> images (snd (fst (process_token loads tok st))) = images st"
proof -
  have pc: "process_content loads tok st' = (([], st'), None)" for st'
    using assms(4) by (auto simp: process_content_def is_empty_content_def)
  have "process_token loads tok st = (when_active clear_status st, None)"
    using assms(1-3) by (simp add: process_token_def pc split: prod.split)
  then show ?thesis
    by (simp add: when_active_def clear_status_def skip_def)
qed

theorem empty_content_yields_nothing_witness:
  "\<not> is_tool_message metadata_only_token \<and> \<not> has_calls (tool_calls metadata_only_token)
    \<and> \<not> has_calls (additional_kwargs metadata_only_token)
    \<and> content metadata_only_token = Some (Text [])
    \<and> process_token example_loads metadata_only_token initial_state = (([], initial_state), None)
    \<and> fst (generate_stream example_loads [metadata_only_token] None) = [Done [] ''assistant'' []]"
  using empty_content_yields_nothing[of metadata_only_token example_loads initial_state]
  by (simp add: metadata_only_token_def eval_defs)

end
